theory Spec2Isabelle
  imports Main
begin

section \<open>Values that cross the server's methods\<close>

text \<open>
  The embedding follows \<^verbatim>\<open>packages/next/server/next-server.ts\<close>. Asynchronous
  methods are modelled by their sequential behaviour: a request's task runs its steps in
  order, and every \<^verbatim>\<open>await\<close> is a call. Mutable objects shared by the methods
  (\<^verbatim>\<open>res\<close>, the response cache) live in an explicit \<open>world\<close> that every method
  takes and returns, together with a log of the calls made to collaborators.
\<close>

text \<open>
  Errors. \<^verbatim>\<open>NoFallbackError\<close> is a class private to the module: no collaborator can
  throw it. Every other thrown value is a \<open>js_error\<close>.
\<close>

datatype js_error =
    DecodeError string
  | WrappedBuildError string
  | ErrnoError string
  | Error string

datatype exn = NoFallbackError | Raised js_error

text \<open>
  How a call ends: it returns, it throws, or (only for the methods that call each other
  without bound, see \<open>render404\<close>) the model's fuel runs out.
\<close>

datatype 'a completion = Return 'a | Throw exn | OutOfFuel

text \<open>
  A query is \<^verbatim>\<open>ParsedUrlQuery\<close> restricted to string values; a key that is absent is
  \<^verbatim>\<open>undefined\<close>. JavaScript truthiness of such a value: defined and not empty.
\<close>

type_synonym query = "string \<rightharpoonup> string"

definition truthy :: "string option \<Rightarrow> bool" where
  "truthy v = (case v of None \<Rightarrow> False | Some s \<Rightarrow> s \<noteq> [])"

definition orElse :: "string option \<Rightarrow> string \<Rightarrow> string" where
  "orElse v d = (if truthy v then the v else d)"

record response =
  statusCode :: nat
  headers :: "string \<rightharpoonup> string"
  ended :: bool
  written :: string

definition setHeader :: "string \<Rightarrow> string \<Rightarrow> response \<Rightarrow> response" where
  "setHeader k v r = r\<lparr>headers := (headers r)(k \<mapsto> v)\<rparr>"

definition res_end :: "string \<Rightarrow> response \<Rightarrow> response" where
  "res_end chunk r = r\<lparr>ended := True, written := written r @ chunk\<rparr>"

definition isResSent :: "response \<Rightarrow> bool" where
  "isResSent r = ended r"

record request =
  url :: string
  url_pathname :: "string option"
  url_query :: "string \<rightharpoonup> string"
  http_method :: string
  user_agent :: "string option"
  host :: "string option"
  x_middleware_subrequest :: "string option"
  x_middleware_preflight :: "string option"
  nextRewroteUrl :: "string option"
  nextDidRewrite :: "bool option"

text \<open>
  \<open>url_pathname\<close> and \<open>url_query\<close> are the \<^verbatim>\<open>pathname\<close> and the
  \<^verbatim>\<open>query\<close> of \<^verbatim>\<open>parseUrl(req.url || '', true)\<close>; \<open>user_agent\<close>, \<open>host\<close>
  and the two \<open>x_middleware\<close> fields are the request headers of these names;
  \<open>nextRewroteUrl\<close> and \<open>nextDidRewrite\<close> are the request meta
  \<^verbatim>\<open>_nextRewroteUrl\<close> and \<^verbatim>\<open>_nextDidRewrite\<close>.
\<close>

datatype revalidate = Seconds nat | Never

record pageData =
  N_REDIRECT :: "string option"
  N_REDIRECT_STATUS :: "nat option"
  N_REDIRECT_BASE_PATH :: "bool option"
  props :: string

definition emptyPageData :: pageData where
  "emptyPageData = \<lparr>N_REDIRECT = None, N_REDIRECT_STATUS = None,
     N_REDIRECT_BASE_PATH = None, props = []\<rparr>"

datatype cache_value = PAGE string pageData | REDIRECT pageData

record cache_entry =
  ce_revalidate :: "revalidate option"
  ce_value :: "cache_value option"

record revalidate_options =
  ro_private :: bool
  ro_stateful :: bool
  ro_revalidate :: revalidate

datatype payload_type = Html | Json

record payload =
  ptype :: payload_type
  body :: string
  revalidateOptions :: "revalidate_options option"

datatype component = StaticHTML string | PageComponent bool

record components =
  Component :: component
  c_getStaticProps :: bool
  c_getServerSideProps :: bool
  c_getStaticPaths :: bool
  hasRenderReqToHTML :: bool
  documentGetInitialProps :: bool

text \<open>
  \<open>components\<close> is \<^verbatim>\<open>LoadComponentsReturnType\<close> as this file reads it:
  \<open>StaticHTML s\<close> is a \<^verbatim>\<open>Component\<close> of type string, \<open>PageComponent g\<close> a
  component with (\<open>g\<close>) or without \<^verbatim>\<open>getInitialProps\<close>; the booleans say whether
  the page exports that function.
\<close>

record find_result =
  fr_components :: components
  fr_query :: query

record render_args =
  ra_pathname :: string
  ra_query :: query
  ra_isDataReq :: bool
  ra_resolvedUrl :: string
  ra_resolvedAsPath :: string
  ra_locale :: "string option"
  ra_supportsDynamicHTML :: bool
  ra_err :: "js_error option"

record render_output =
  ro_html :: "string option"
  ro_pageData :: pageData
  ro_sprRevalidate :: "revalidate option"
  ro_isNotFound :: bool
  ro_isRedirect :: bool

datatype event =
    RenderToHTML string
  | GetFallback string
  | LogError "js_error option"
  | SendRenderResult payload_type string
  | RunEdge string
  | Warn string

record world =
  res :: response
  cache :: "string \<rightharpoonup> (cache_entry \<times> bool)"
  log :: "event list"

text \<open>
  \<open>cache w k = Some (e, stale)\<close>: the response cache holds the entry \<open>e\<close> for the key
  \<open>k\<close>, and \<open>stale\<close> says that its revalidation period has passed.
\<close>

definition logged :: "event \<Rightarrow> world \<Rightarrow> world" where
  "logged e w = w\<lparr>log := log w @ [e]\<rparr>"

section \<open>The server and what it imports\<close>

datatype fallback_field = FallbackString string | FallbackNull | FallbackFalse

datatype fallback_mode = Static | Blocking | NoFallback

record i18n_config =
  locales :: "string list"
  defaultLocale :: string

record routing_item =
  page :: string
  matcher :: "string \<Rightarrow> js_error + (string \<rightharpoonup> string) option"

record middleware_item =
  mw_page :: string
  mw_match :: "string \<Rightarrow> bool"

record server =
  buildId :: string
  minimalMode :: bool
  dev :: bool
  i18n :: "i18n_config option"
  basePath :: string
  trailingSlash :: bool
  customServer :: bool
  prerenderManifest :: "string \<rightharpoonup> fallback_field"
  dynamicRoutes :: "routing_item list option"
  fallbackErrorComponents :: "components option"
  hasStaticDir :: bool
  middleware :: "middleware_item list option"

record edge_response =
  er_headers :: "(string \<times> string) list"
  er_status :: nat
  er_body :: string

record parsed_destination =
  pd_protocol :: "string option"
  pd_hostname :: "string option"
  pd_port :: "string option"
  pd_query :: query

record route_result =
  finished :: bool
  rr_pathname :: "string option"
  rr_query :: "query option"

text \<open>
  \<open>edge_response\<close> is the \<^verbatim>\<open>response\<close> of a \<^verbatim>\<open>FetchEventResult\<close>, its header
  names in lower case; \<open>route_result\<close> is what a route's \<^verbatim>\<open>fn\<close> returns.
  \<open>fallbackErrorComponents\<close> is what \<^verbatim>\<open>getFallbackErrorComponents()\<close> returns:
  null in this class, the development server overrides it.
\<close>

text \<open>
  The functions this file imports from modules that are not part of it. Each is a
  parameter: the theorems hold for every implementation.
\<close>

record helpers =
  removePathTrailingSlash :: "string \<Rightarrow> string"
  normalizeLocalePath :: "string \<Rightarrow> string list option \<Rightarrow> string \<times> string option"
  denormalizePagePath :: "string \<Rightarrow> string"
  normalizePagePath :: "string \<Rightarrow> string"
  escapePathDelimiters :: "string \<Rightarrow> string"
  isDynamicRoute :: "string \<Rightarrow> bool"
  isBot :: "string \<Rightarrow> bool"
  isBlockedPage :: "string \<Rightarrow> bool"
  tryGetPreviewData :: "request \<Rightarrow> bool"
  getRedirectStatus :: "pageData \<Rightarrow> nat"
  normalizeRepeatedSlashes :: "string \<Rightarrow> string"
  JSON_stringify :: "pageData \<Rightarrow> string"
  setRevalidateHeaders :: "revalidate_options \<Rightarrow> response \<Rightarrow> response"
  renderToHTML :: "render_args \<Rightarrow> response \<Rightarrow> (js_error + render_output) \<times> response"
  renderReqToHTML :: "render_args \<Rightarrow> response \<Rightarrow> (js_error + render_output) \<times> response"
  getFallback :: "string \<Rightarrow> js_error + string"
  loadComponents :: "string \<Rightarrow> js_error + components"
  getPagePath :: "string \<Rightarrow> js_error + string"
  getRouteFromAssetPath :: "string \<Rightarrow> string \<Rightarrow> string"
  getMiddlewareInfo :: "string \<Rightarrow> js_error + string \<times> string list"
  runEdge :: "string \<Rightarrow> request \<Rightarrow> string option \<Rightarrow> js_error + edge_response"
  prepareDestination :: "string \<Rightarrow> query \<Rightarrow> string \<times> parsed_destination"
  proxyRequest :: "request \<Rightarrow> parsed_destination \<Rightarrow> response \<Rightarrow> (js_error + route_result) \<times> response"
  detectDomainLocale :: "string option \<Rightarrow> string option"
  sendRenderResult :: "payload \<Rightarrow> response \<Rightarrow> response"
  STATIC_STATUS_PAGES :: "string list"


text \<open>
  Modelled from the spec: the constant \<^verbatim>\<open>PERMANENT_REDIRECT_STATUS\<close> of
  \<^verbatim>\<open>shared/lib/constants\<close> is not part of this file; the spec names 308 as the
  permanent redirect's status code.
\<close>

definition PERMANENT_REDIRECT_STATUS :: nat where
  "PERMANENT_REDIRECT_STATUS = 308"

section \<open>Strings\<close>

definition startsWith :: "string \<Rightarrow> string \<Rightarrow> bool" where
  "startsWith s p = (take (length p) s = p)"

definition endsWith :: "string \<Rightarrow> string \<Rightarrow> bool" where
  "endsWith s p = (length p \<le> length s \<and> drop (length s - length p) s = p)"

definition stripSuffix :: "string \<Rightarrow> string \<Rightarrow> string" where
  "stripSuffix suf s = (if endsWith s suf then take (length s - length suf) s else s)"

text \<open>\<^verbatim>\<open>s.split(d)\<close> and \<^verbatim>\<open>xs.join(sep)\<close>.\<close>

fun splitOn :: "char \<Rightarrow> string \<Rightarrow> string list" where
  "splitOn d [] = [[]]"
| "splitOn d (c # cs) =
     (case splitOn d cs of
        [] \<Rightarrow> [[c]]
      | x # xs \<Rightarrow> if c = d then [] # x # xs else (c # x) # xs)"

fun joinWith :: "string \<Rightarrow> string list \<Rightarrow> string" where
  "joinWith sep [] = []"
| "joinWith sep [x] = x"
| "joinWith sep (x # y # ys) = x @ sep @ joinWith sep (y # ys)"

text \<open>
  \<open>afterFirst needle s\<close> is \<^verbatim>\<open>s.substring(s.indexOf(needle) + needle.length)\<close>
  when \<^verbatim>\<open>s.includes(needle)\<close>, and \<open>None\<close> otherwise.
\<close>

fun afterFirst :: "string \<Rightarrow> string \<Rightarrow> string option" where
  "afterFirst needle [] = (if needle = [] then Some [] else None)"
| "afterFirst needle (c # cs) =
     (if startsWith (c # cs) needle then Some (drop (length needle) (c # cs))
      else afterFirst needle cs)"

text \<open>
  \<^verbatim>\<open>parseInt(s, 10)\<close> on a string that starts with decimal digits, as the
  entries of \<^verbatim>\<open>STATIC_STATUS_PAGES\<close> do after their slash.
\<close>

definition isDigit :: "char \<Rightarrow> bool" where
  "isDigit c = (48 \<le> (of_char c :: nat) \<and> (of_char c :: nat) \<le> 57)"

definition parseInt10 :: "string \<Rightarrow> nat" where
  "parseInt10 s = foldl (\<lambda>n c. 10 * n + ((of_char c :: nat) - 48)) 0 (takeWhile isDigit s)"

subsection \<open>decodeURIComponent\<close>

text \<open>
  The built-in of the language, after ECMAScript's \<^verbatim>\<open>Decode\<close>: every \<^verbatim>\<open>%\<close> must be
  followed by two hexadecimal digits, and the octets so written must be well-formed
  UTF-8; otherwise a \<^verbatim>\<open>URIError\<close> is thrown (\<open>None\<close>). Strings are byte strings here,
  so the result keeps the decoded octets.
\<close>

definition hexval :: "char \<Rightarrow> nat option" where
  "hexval c =
     (let n = (of_char c :: nat) in
      if 48 \<le> n \<and> n \<le> 57 then Some (n - 48)
      else if 65 \<le> n \<and> n \<le> 70 then Some (n - 55)
      else if 97 \<le> n \<and> n \<le> 102 then Some (n - 87)
      else None)"

fun pctTokens :: "string \<Rightarrow> (char + nat) list option" where
  "pctTokens [] = Some []"
| "pctTokens [c] = (if c = CHR ''%'' then None else Some [Inl c])"
| "pctTokens [c, a] =
     (if c = CHR ''%'' then None else map_option ((#) (Inl c)) (pctTokens [a]))"
| "pctTokens (c # a # b # rest) =
     (if c = CHR ''%'' then
        (case (hexval a, hexval b) of
           (Some x, Some y) \<Rightarrow> map_option ((#) (Inr (16 * x + y))) (pctTokens rest)
         | _ \<Rightarrow> None)
      else map_option ((#) (Inl c)) (pctTokens (a # b # rest)))"

fun utf8valid :: "nat \<Rightarrow> nat \<Rightarrow> nat \<Rightarrow> (char + nat) list \<Rightarrow> bool" where
  "utf8valid pending cp lo [] = (pending = 0)"
| "utf8valid pending cp lo (Inl c # ts) = (pending = 0 \<and> utf8valid 0 0 0 ts)"
| "utf8valid pending cp lo (Inr b # ts) =
     (if pending = 0 then
        (if b < 128 then utf8valid 0 0 0 ts
         else if 192 \<le> b \<and> b < 224 then utf8valid 1 (b - 192) 128 ts
         else if 224 \<le> b \<and> b < 240 then utf8valid 2 (b - 224) 2048 ts
         else if 240 \<le> b \<and> b < 248 then utf8valid 3 (b - 240) 65536 ts
         else False)
      else
        (128 \<le> b \<and> b < 192 \<and>
         (if pending = 1 then
            lo \<le> cp * 64 + (b - 128) \<and> cp * 64 + (b - 128) \<le> 1114111 \<and>
            (cp * 64 + (b - 128) < 55296 \<or> 57343 < cp * 64 + (b - 128)) \<and>
            utf8valid 0 0 0 ts
          else utf8valid (pending - 1) (cp * 64 + (b - 128)) lo ts)))"

definition tokenChar :: "char + nat \<Rightarrow> char" where
  "tokenChar t = (case t of Inl c \<Rightarrow> c | Inr b \<Rightarrow> char_of b)"

definition decodeURIComponent :: "string \<Rightarrow> string option" where
  "decodeURIComponent s =
     (case pctTokens s of
        None \<Rightarrow> None
      | Some ts \<Rightarrow> if utf8valid 0 0 0 ts then Some (map tokenChar ts) else None)"


section \<open>Rendering a page whose components were found\<close>

record ctx =
  req :: request
  pathname :: string
  ctx_query :: query
  supportsDynamicHTML :: bool
  opts_err :: "js_error option"
  opts_params :: "(string \<rightharpoonup> string) option"

text \<open>
  \<open>ctx\<close> is \<^verbatim>\<open>RequestContext\<close> without \<^verbatim>\<open>res\<close> (which is in the world); of
  \<^verbatim>\<open>renderOpts\<close> it keeps the three options this file reads or writes.
\<close>

text \<open>
  The local constants of \<^verbatim>\<open>renderToResponseWithComponents\<close> that its closures
  (\<^verbatim>\<open>doRender\<close>, the cache's producer, \<^verbatim>\<open>handleRedirect\<close>) read.
\<close>

record locals =
  l_req :: request
  l_pathname :: string
  l_query :: query
  is404Page :: bool
  is500Page :: bool
  isLikeServerless :: bool
  isSSG :: bool
  hasServerProps :: bool
  hasStaticPaths :: bool
  hasGetInitialProps :: bool
  isDataReq :: bool
  l_supportsDynamicHTML :: bool
  l_locale :: "string option"
  isPreviewMode :: bool
  urlPathname :: string
  resolvedUrlPathname :: string
  l_err :: "js_error option"

definition i18n_locales :: "server \<Rightarrow> string list option" where
  "i18n_locales srv = map_option locales (i18n srv)"

text \<open>Lines 1868 to 1877: the new value of \<^verbatim>\<open>opts.supportsDynamicHTML\<close>.\<close>

definition disableDynamicHTML :: "server \<Rightarrow> bool \<Rightarrow> components \<Rightarrow> query \<Rightarrow> bool" where
  "disableDynamicHTML srv supports comps q =
     (if supports then
        \<not> c_getStaticProps comps \<and> \<not> hasRenderReqToHTML comps \<and> \<not> truthy (q ''amp'') \<and>
        \<not> minimalMode srv \<and> \<not> documentGetInitialProps comps
      else False)"

definition stripNextDataPath :: "helpers \<Rightarrow> server \<Rightarrow> string \<Rightarrow> string" where
  "stripNextDataPath h srv path =
     (let path' =
        (case afterFirst (buildId srv) path of
           Some splitPath \<Rightarrow> denormalizePagePath h (stripSuffix ''.json'' splitPath)
         | None \<Rightarrow> path)
      in if i18n srv \<noteq> None then fst (normalizeLocalePath h path' (i18n_locales srv))
         else path')"

text \<open>Lines 1829 to 1958, for a component that is not a static string.\<close>

definition computeLocals :: "helpers \<Rightarrow> server \<Rightarrow> ctx \<Rightarrow> find_result \<Rightarrow> locals" where
  "computeLocals h srv c fr =
     (let comps = fr_components fr;
          ssg = c_getStaticProps comps;
          ssp = c_getServerSideProps comps;
          dataReq = (truthy (fr_query fr ''_nextDataReq'') \<and> (ssg \<or> ssp));
          q1 = (fr_query fr)(''_nextDataReq'' := None);
          q2 = (if \<not> truthy (q1 ''amp'') then q1(''amp'' := None) else q1);
          urlPathname0 = orElse (url_pathname (req c)) ''/'';
          resolved0 = orElse (nextRewroteUrl (req c)) urlPathname0;
          urlPathname1 = removePathTrailingSlash h urlPathname0;
          resolved1 = fst (normalizeLocalePath h (removePathTrailingSlash h resolved0)
                             (i18n_locales srv))
      in \<lparr>l_req = req c,
          l_pathname = pathname c,
          l_query = q2,
          is404Page = (pathname c = ''/404''),
          is500Page = (pathname c = ''/500''),
          isLikeServerless = hasRenderReqToHTML comps,
          isSSG = ssg,
          hasServerProps = ssp,
          hasStaticPaths = c_getStaticPaths comps,
          hasGetInitialProps = (case Component comps of PageComponent g \<Rightarrow> g | StaticHTML _ \<Rightarrow> False),
          isDataReq = dataReq,
          l_supportsDynamicHTML = disableDynamicHTML srv (supportsDynamicHTML c) comps q2,
          l_locale = q2 ''__nextLocale'',
          isPreviewMode = ((ssp \<or> ssg) \<and> tryGetPreviewData h (req c)),
          urlPathname = (if dataReq then stripNextDataPath h srv urlPathname1 else urlPathname1),
          resolvedUrlPathname = (if dataReq then stripNextDataPath h srv resolved1 else resolved1),
          l_err = opts_err c\<rparr>)"

subsection \<open>The cache key\<close>

definition localePrefix :: "string option \<Rightarrow> string" where
  "localePrefix loc = (if truthy loc then ''/'' @ the loc else [])"

definition ampSuffix :: "query \<Rightarrow> string" where
  "ampSuffix q = (if truthy (q ''amp'') then ''.amp'' else [])"

text \<open>Lines 1960 to 1973: the key before its segments are decoded.\<close>

definition ssgCacheKey :: "server \<Rightarrow> locals \<Rightarrow> string option" where
  "ssgCacheKey srv L =
     (let key0 =
        (if isPreviewMode L \<or> \<not> isSSG L \<or> minimalMode srv \<or> l_supportsDynamicHTML L
         then None
         else Some (localePrefix (l_locale L) @
                    (if (l_pathname L = ''/'' \<or> resolvedUrlPathname L = ''/'') \<and> truthy (l_locale L)
                     then [] else resolvedUrlPathname L) @
                    ampSuffix (l_query L)))
      in if (is404Page L \<or> is500Page L) \<and> isSSG L
         then Some (localePrefix (l_locale L) @ l_pathname L @ ampSuffix (l_query L))
         else key0)"

fun decodeSegments :: "helpers \<Rightarrow> string list \<Rightarrow> string list option" where
  "decodeSegments h [] = Some []"
| "decodeSegments h (seg # segs) =
     (case decodeURIComponent seg of
        None \<Rightarrow> None
      | Some d \<Rightarrow> map_option ((#) (escapePathDelimiters h d)) (decodeSegments h segs))"

text \<open>
  Lines 1975 to 1995: a key that is null or empty is left alone; otherwise a segment
  that does not decode throws \<^verbatim>\<open>DecodeError\<close>.
\<close>

definition decodedCacheKey :: "helpers \<Rightarrow> string option \<Rightarrow> js_error + string option" where
  "decodedCacheKey h key =
     (if truthy key then
        (case decodeSegments h (splitOn (CHR ''/'') (the key)) of
           None \<Rightarrow> Inl (DecodeError ''failed to decode param'')
         | Some segs \<Rightarrow> Inr (Some (joinWith ''/'' segs)))
      else Inr key)"

subsection \<open>doRender\<close>

definition renderArgs :: "server \<Rightarrow> locals \<Rightarrow> query \<Rightarrow> render_args" where
  "renderArgs srv L q =
     (let hadTrailingSlash = (urlPathname L \<noteq> ''/'' \<and> trailingSlash srv);
          resolvedUrl = resolvedUrlPathname L @ (if hadTrailingSlash then ''/'' else [])
      in \<lparr>ra_pathname = l_pathname L,
          ra_query = q,
          ra_isDataReq = isDataReq L,
          ra_resolvedUrl = resolvedUrl,
          ra_resolvedAsPath =
            (if hasServerProps L \<or> hasGetInitialProps L
             then urlPathname L @ (if hadTrailingSlash then ''/'' else [])
             else resolvedUrl),
          ra_locale = l_locale L,
          ra_supportsDynamicHTML = l_supportsDynamicHTML L,
          ra_err = l_err L\<rparr>)"

text \<open>
  Lines 1997 to 2084. The call of the renderer is logged before it is made, so the log
  also shows a render that threw.
\<close>

definition doRender ::
  "helpers \<Rightarrow> server \<Rightarrow> locals \<Rightarrow> query \<Rightarrow> world \<Rightarrow> cache_entry option completion \<times> world" where
  "doRender h srv L q w =
     (let w1 = logged (RenderToHTML (l_pathname L)) w;
          r = (if isLikeServerless L then renderReqToHTML h else renderToHTML h)
                (renderArgs srv L q) (res w1);
          w2 = w1\<lparr>res := snd r\<rparr>
      in case fst r of
           Inl e \<Rightarrow> (Throw (Raised e), w2)
         | Inr out \<Rightarrow>
             if ro_isNotFound out then
               (Return (Some \<lparr>ce_revalidate = ro_sprRevalidate out, ce_value = None\<rparr>), w2)
             else if ro_isRedirect out then
               (Return (Some \<lparr>ce_revalidate = ro_sprRevalidate out,
                               ce_value = Some (REDIRECT (ro_pageData out))\<rparr>), w2)
             else
               (case ro_html out of
                  None \<Rightarrow> (Return None, w2)
                | Some b \<Rightarrow>
                    (Return (Some \<lparr>ce_revalidate = ro_sprRevalidate out,
                                    ce_value = Some (PAGE b (ro_pageData out))\<rparr>), w2)))"


subsection \<open>The producer handed to the response cache\<close>

text \<open>
  \<^verbatim>\<open>getStaticPaths\<close> of this class (lines 1802 to 1823): it reads the prerender
  manifest; a page that the manifest's \<^verbatim>\<open>dynamicRoutes\<close> does not hold makes the
  property access throw a \<^verbatim>\<open>TypeError\<close>.
\<close>

definition getStaticPaths ::
  "server \<Rightarrow> string \<Rightarrow> js_error + (string list option \<times> fallback_mode)" where
  "getStaticPaths srv pname =
     (case prerenderManifest srv pname of
        None \<Rightarrow> Inl (Error ''TypeError'')
      | Some fallbackField \<Rightarrow>
          Inr (None,
               (case fallbackField of
                  FallbackString _ \<Rightarrow> Static
                | FallbackNull \<Rightarrow> Blocking
                | FallbackFalse \<Rightarrow> NoFallback)))"

text \<open>
  \<^verbatim>\<open>if (!result) return null\<close>, and otherwise the result with a field changed.
\<close>

definition mapEntry ::
  "(cache_entry \<Rightarrow> cache_entry) \<Rightarrow> cache_entry option completion \<times> world
     \<Rightarrow> cache_entry option completion \<times> world" where
  "mapEntry f r =
     (case r of
        (Return (Some result), w') \<Rightarrow> (Return (Some (f result)), w')
      | other \<Rightarrow> other)"

text \<open>Lines 2177 to 2187: render, and default the revalidation period to 1.\<close>

definition renderAndDefault ::
  "helpers \<Rightarrow> server \<Rightarrow> locals \<Rightarrow> world \<Rightarrow> cache_entry option completion \<times> world" where
  "renderAndDefault h srv L w =
     mapEntry
       (\<lambda>result. result\<lparr>ce_revalidate :=
          (case ce_revalidate result of None \<Rightarrow> Some (Seconds 1) | Some r \<Rightarrow> Some r)\<rparr>)
       (doRender h srv L (l_query L) w)"

text \<open>Lines 2097 to 2102: a bot never gets the static fallback.\<close>

definition botFallbackMode :: "helpers \<Rightarrow> locals \<Rightarrow> fallback_mode \<Rightarrow> fallback_mode" where
  "botFallbackMode h L fallbackMode =
     (if fallbackMode = Static \<and> isBot h (orElse (user_agent (l_req L)) [])
      then Blocking else fallbackMode)"

text \<open>Lines 2119 to 2135, the condition under which the render is not simply awaited.\<close>

definition fallbackApplies ::
  "helpers \<Rightarrow> server \<Rightarrow> locals \<Rightarrow> string option \<Rightarrow> bool \<Rightarrow> string list option
     \<Rightarrow> fallback_mode \<Rightarrow> bool" where
  "fallbackApplies h srv L key didRespond staticPaths fallbackMode =
     (minimalMode srv \<noteq> True \<and>
      fallbackMode \<noteq> Blocking \<and>
      truthy key \<and>
      \<not> didRespond \<and>
      \<not> isPreviewMode L \<and>
      isDynamicRoute h (l_pathname L) \<and>
      (\<not> dev srv \<or>
       (case staticPaths of
          None \<Rightarrow> True
        | Some sp \<Rightarrow>
            (if truthy (l_query L ''amp'') then stripSuffix ''.amp'' (the key) else the key)
              \<notin> set sp)))"

text \<open>
  Lines 2146 to 2174: the fallback of a request that is not a data request. In
  production it is the skeleton built ahead of time, read by
  \<^verbatim>\<open>incrementalCache.getFallback\<close>; in development it is rendered, and not cached.
\<close>

definition serveFallback ::
  "helpers \<Rightarrow> server \<Rightarrow> locals \<Rightarrow> world \<Rightarrow> cache_entry option completion \<times> world" where
  "serveFallback h srv L w =
     (if \<not> dev srv then
        (let path = (if truthy (l_locale L) then ''/'' @ the (l_locale L) @ l_pathname L
                     else l_pathname L);
             w1 = logged (GetFallback path) w
         in case getFallback h path of
              Inl e \<Rightarrow> (Throw (Raised e), w1)
            | Inr html \<Rightarrow>
                (Return (Some \<lparr>ce_revalidate = None,
                                ce_value = Some (PAGE html emptyPageData)\<rparr>), w1))
      else
        mapEntry (\<lambda>result. result\<lparr>ce_revalidate := None\<rparr>)
          (doRender h srv L ((l_query L)(''__nextFallback'' \<mapsto> ''true'')) w))"

text \<open>
  Lines 2088 to 2188, the callback given to \<^verbatim>\<open>responseCache.get\<close>; \<open>key\<close> is
  \<^verbatim>\<open>ssgCacheKey\<close> after decoding.
\<close>

definition producer ::
  "helpers \<Rightarrow> server \<Rightarrow> locals \<Rightarrow> string option \<Rightarrow> bool \<Rightarrow> world
     \<Rightarrow> cache_entry option completion \<times> world" where
  "producer h srv L key hasResolved w =
     (let isProduction = (\<not> dev srv);
          didRespond = (hasResolved \<or> isResSent (res w))
      in case (if hasStaticPaths L then getStaticPaths srv (l_pathname L)
               else Inr (None, NoFallback)) of
           Inl e \<Rightarrow> (Throw (Raised e), w)
         | Inr (staticPaths, fallbackMode0) \<Rightarrow>
            (let fallbackMode = botFallbackMode h L fallbackMode0
             in if fallbackApplies h srv L key didRespond staticPaths fallbackMode then
                  (if (isProduction \<or> staticPaths \<noteq> None) \<and> fallbackMode \<noteq> Static
                   then (Throw NoFallbackError, w)
                   else if \<not> isDataReq L then serveFallback h srv L w
                   else renderAndDefault h srv L w)
                else renderAndDefault h srv L w))"

subsection \<open>The response cache\<close>

text \<open>
  Modelled from the spec: \<^verbatim>\<open>ResponseCache.get\<close> (\<^verbatim>\<open>./response-cache\<close>) is not
  part of this file. This is its contract of section 4.3 as one request sees it: a null
  key invokes the producer directly and stores nothing; a key without an entry invokes
  the producer (which has not responded) and stores a cacheable result, that is one with
  a revalidation period (section 4.4: the skeleton is marked non-cacheable); an entry
  that is not stale is returned without invoking the producer; a stale entry is returned
  and regenerated by the producer (which has responded), and a failed regeneration
  leaves the stale entry in place.
\<close>

definition responseCache_get ::
  "string option \<Rightarrow> (bool \<Rightarrow> world \<Rightarrow> cache_entry option completion \<times> world) \<Rightarrow> world
     \<Rightarrow> cache_entry option completion \<times> world" where
  "responseCache_get key gen w =
     (case key of
        None \<Rightarrow> gen False w
      | Some k \<Rightarrow>
          (case cache w k of
             None \<Rightarrow>
               (case gen False w of
                  (Return (Some entry), w') \<Rightarrow>
                    (Return (Some entry),
                     if ce_revalidate entry \<noteq> None
                     then w'\<lparr>cache := (cache w')(k \<mapsto> (entry, False))\<rparr> else w')
                | other \<Rightarrow> other)
           | Some (stored, stale) \<Rightarrow>
               if \<not> stale then (Return (Some stored), w)
               else
                 (case gen True w of
                    (Return (Some entry), w') \<Rightarrow>
                      (Return (Some stored),
                       if ce_revalidate entry \<noteq> None
                       then w'\<lparr>cache := (cache w')(k \<mapsto> (entry, False))\<rparr> else w')
                  | (OutOfFuel, w') \<Rightarrow> (OutOfFuel, w')
                  | (_, w') \<Rightarrow> (Return (Some stored), w'))))"

subsection \<open>From the cache entry to the response\<close>

text \<open>Lines 1923 to 1951.\<close>

definition handleRedirect ::
  "helpers \<Rightarrow> server \<Rightarrow> pageData \<Rightarrow> response \<Rightarrow> js_error + response" where
  "handleRedirect h srv pd r =
     (case N_REDIRECT pd of
        None \<Rightarrow> Inl (Error ''TypeError'')
      | Some destination \<Rightarrow>
          (let status = getRedirectStatus h pd;
               dest1 = (if basePath srv \<noteq> [] \<and> N_REDIRECT_BASE_PATH pd \<noteq> Some False \<and>
                           startsWith destination ''/''
                        then basePath srv @ destination else destination);
               dest2 = (if startsWith dest1 ''/'' then normalizeRepeatedSlashes h dest1 else dest1);
               r1 = (if status = PERMANENT_REDIRECT_STATUS
                     then setHeader ''Refresh'' (''0;url='' @ dest2) r else r);
               r2 = r1\<lparr>statusCode := status\<rparr>;
               r3 = setHeader ''Location'' dest2 r2
           in Inr (res_end [] r3)))"

text \<open>The body \<^verbatim>\<open>{"notFound":true}\<close> of a data request's 404.\<close>

definition notFoundJson :: string where
  "notFoundJson = ''{'' @ [CHR 0x22] @ ''notFound'' @ [CHR 0x22] @ '':true}''"

type_synonym render404_fn = "request \<Rightarrow> string \<Rightarrow> query \<Rightarrow> bool \<Rightarrow> world \<Rightarrow> unit completion \<times> world"

text \<open>Lines 2203 to 2215.\<close>

definition revalidateOptionsOf :: "server \<Rightarrow> locals \<Rightarrow> cache_entry \<Rightarrow> revalidate_options option" where
  "revalidateOptionsOf srv L ce =
     (case ce_revalidate ce of
        None \<Rightarrow> None
      | Some r \<Rightarrow>
          if \<not> dev srv \<or> (hasServerProps L \<and> \<not> isDataReq L)
          then Some \<lparr>ro_private = (isPreviewMode L \<or> (is404Page L \<and> ce_value ce \<noteq> None)),
                     ro_stateful = (\<not> isSSG L),
                     ro_revalidate = r\<rparr>
          else None)"

text \<open>
  Lines 2191 to 2256. \<^verbatim>\<open>this.render404\<close> is passed in: it renders the error
  page through this very method again (see \<open>render404\<close> below).
\<close>

definition respond ::
  "helpers \<Rightarrow> server \<Rightarrow> render404_fn \<Rightarrow> locals \<Rightarrow> string option \<Rightarrow> cache_entry option \<Rightarrow> world
     \<Rightarrow> payload option completion \<times> world" where
  "respond h srv r404 L key cacheEntry w =
     (case cacheEntry of
        None \<Rightarrow>
          if truthy key
          then (Throw (Raised (Error ''invariant: cache entry required but not generated'')), w)
          else (Return None, w)
      | Some ce \<Rightarrow>
          (let revalidateOpts = revalidateOptionsOf srv L ce
           in case ce_value ce of
                None \<Rightarrow>
                  (let w1 = (case revalidateOpts of
                               Some ro \<Rightarrow> w\<lparr>res := setRevalidateHeaders h ro (res w)\<rparr>
                             | None \<Rightarrow> w)
                   in if isDataReq L then
                        (Return None,
                         w1\<lparr>res := res_end notFoundJson ((res w1)\<lparr>statusCode := 404\<rparr>)\<rparr>)
                      else
                        (case r404 (l_req L) (l_pathname L) (l_query L) False w1 of
                           (Return _, w2) \<Rightarrow> (Return None, w2)
                         | (Throw e, w2) \<Rightarrow> (Throw e, w2)
                         | (OutOfFuel, w2) \<Rightarrow> (OutOfFuel, w2)))
              | Some (REDIRECT rprops) \<Rightarrow>
                  if isDataReq L then
                    (Return (Some \<lparr>ptype = Json, body = JSON_stringify h rprops,
                                    revalidateOptions = revalidateOpts\<rparr>), w)
                  else
                    (case handleRedirect h srv rprops (res w) of
                       Inl e \<Rightarrow> (Throw (Raised e), w)
                     | Inr r' \<Rightarrow> (Return None, w\<lparr>res := r'\<rparr>))
              | Some (PAGE html pd) \<Rightarrow>
                  (Return (Some \<lparr>ptype = (if isDataReq L then Json else Html),
                                  body = (if isDataReq L then JSON_stringify h pd else html),
                                  revalidateOptions = revalidateOpts\<rparr>), w)))"

text \<open>Lines 1845 to 1853: the status a status page sets when it is visited.\<close>

definition statusForPage :: "helpers \<Rightarrow> string \<Rightarrow> bool \<Rightarrow> response \<Rightarrow> response" where
  "statusForPage h pname dataReq r =
     (let r1 = (if pname = ''/404'' \<and> \<not> dataReq then r\<lparr>statusCode := 404\<rparr> else r)
      in if pname \<in> set (STATIC_STATUS_PAGES h)
         then r1\<lparr>statusCode := parseInt10 (drop 1 pname)\<rparr> else r1)"

text \<open>\<^verbatim>\<open>renderToResponseWithComponents\<close>, lines 1825 to 2257.\<close>

definition renderToResponseWithComponents ::
  "helpers \<Rightarrow> server \<Rightarrow> render404_fn \<Rightarrow> ctx \<Rightarrow> find_result \<Rightarrow> world
     \<Rightarrow> payload option completion \<times> world" where
  "renderToResponseWithComponents h srv r404 c fr w =
     (let L = computeLocals h srv c fr;
          w1 = w\<lparr>res := statusForPage h (pathname c) (isDataReq L) (res w)\<rparr>
      in case Component (fr_components fr) of
           StaticHTML html \<Rightarrow>
             (Return (Some \<lparr>ptype = Html, body = html, revalidateOptions = None\<rparr>), w1)
         | PageComponent _ \<Rightarrow>
             (case decodedCacheKey h (ssgCacheKey srv L) of
                Inl e \<Rightarrow> (Throw (Raised e), w1)
              | Inr key \<Rightarrow>
                  (case responseCache_get key (producer h srv L key) w1 of
                     (Return cacheEntry, w2) \<Rightarrow> respond h srv r404 L key cacheEntry w2
                   | (Throw e, w2) \<Rightarrow> (Throw e, w2)
                   | (OutOfFuel, w2) \<Rightarrow> (OutOfFuel, w2))))"


section \<open>Finding a page's components\<close>

text \<open>
  Lines 1763 to 1799, the loop over the candidate paths: a path that does not exist
  (\<^verbatim>\<open>ENOENT\<close>) is skipped, and so is static HTML outside the request's locale.
\<close>

fun tryPaths ::
  "helpers \<Rightarrow> query \<Rightarrow> (string \<rightharpoonup> string) option \<Rightarrow> string list \<Rightarrow> js_error + find_result option" where
  "tryPaths h q params [] = Inr None"
| "tryPaths h q params (pagePath # paths) =
     (case loadComponents h pagePath of
        Inl e \<Rightarrow> (if e \<noteq> ErrnoError ''ENOENT'' then Inl e else tryPaths h q params paths)
      | Inr comps \<Rightarrow>
          if truthy (q ''__nextLocale'') \<and>
             (case Component comps of StaticHTML _ \<Rightarrow> True | PageComponent _ \<Rightarrow> False) \<and>
             \<not> startsWith pagePath (''/'' @ the (q ''__nextLocale''))
          then tryPaths h q params paths
          else Inr (Some \<lparr>fr_components = comps,
                           fr_query =
                             (if c_getStaticProps comps
                              then q |` {''amp'', ''_nextDataReq'', ''__nextLocale'', ''__nextDefaultLocale''}
                              else q) ++ (case params of None \<Rightarrow> Map.empty | Some ps \<Rightarrow> ps)\<rparr>))"

text \<open>\<^verbatim>\<open>findPageComponents\<close>, lines 1743 to 1800.\<close>

definition findPageComponents ::
  "helpers \<Rightarrow> string \<Rightarrow> query \<Rightarrow> (string \<rightharpoonup> string) option \<Rightarrow> js_error + find_result option" where
  "findPageComponents h pname q params =
     (let paths0 = filter (\<lambda>p. p \<noteq> [])
                     ((if truthy (q ''amp'') then [normalizePagePath h pname @ ''.amp''] else [])
                      @ [pname]);
          paths = (if truthy (q ''__nextLocale'')
                   then map (\<lambda>path. ''/'' @ the (q ''__nextLocale'') @ (if path = ''/'' then [] else path))
                          paths0 @ paths0
                   else paths0)
      in tryPaths h q params paths)"

section \<open>The error presenter\<close>

text \<open>The decimal digits of a status code, for \<^verbatim>\<open>`/${res.statusCode}`\<close>.\<close>

fun showNat :: "nat \<Rightarrow> string" where
  "showNat n =
     (if n < 10 then [char_of (48 + n)]
      else showNat (n div 10) @ [char_of (48 + n mod 10)])"

text \<open>
  Lines 2410 to 2429: the page that presents the status, and its components. The
  warning of lines 2431 to 2438 changes nothing in the response and is left out.
\<close>

definition selectErrorPage ::
  "helpers \<Rightarrow> query \<Rightarrow> nat \<Rightarrow> js_error + (string \<times> find_result option)" where
  "selectErrorPage h q status =
     (case (if status = 404 then findPageComponents h ''/404'' q None else Inr None) of
        Inl e \<Rightarrow> Inl e
      | Inr result1 \<Rightarrow>
          (let statusPage = ''/'' @ showNat status in
           case (if result1 = None \<and> statusPage \<in> set (STATIC_STATUS_PAGES h)
                 then findPageComponents h statusPage q None else Inr result1) of
             Inl e \<Rightarrow> Inl e
           | Inr result2 \<Rightarrow>
               if result2 = None then
                 (case findPageComponents h ''/_error'' q None of
                    Inl e \<Rightarrow> Inl e
                  | Inr result3 \<Rightarrow> Inr (''/_error'', result3))
               else Inr (statusPage, result2)))"

text \<open>
  Lines 2409 to 2457, the outer \<^verbatim>\<open>try\<close> block: what it returns or throws.
  A missing result (\<^verbatim>\<open>result!\<close> on null) is a \<^verbatim>\<open>TypeError\<close> of the call.
\<close>

definition tryRenderErrorPage ::
  "helpers \<Rightarrow> server \<Rightarrow> render404_fn \<Rightarrow> ctx \<Rightarrow> js_error option \<Rightarrow> world
     \<Rightarrow> payload option completion \<times> world" where
  "tryRenderErrorPage h srv r404 c err w =
     (case selectErrorPage h (ctx_query c) (statusCode (res w)) of
        Inl e \<Rightarrow> (Throw (Raised e), w)
      | Inr (statusPage, None) \<Rightarrow> (Throw (Raised (Error ''TypeError'')), w)
      | Inr (statusPage, Some result) \<Rightarrow>
          (case renderToResponseWithComponents h srv r404
                  (c\<lparr>pathname := statusPage, opts_err := err\<rparr>) result w of
             (Throw NoFallbackError, w') \<Rightarrow>
               (Throw (Raised (Error ''invariant: failed to render error page'')), w')
           | other \<Rightarrow> other))"

definition innerError :: "js_error \<Rightarrow> js_error" where
  "innerError e = (case e of WrappedBuildError inner \<Rightarrow> Error inner | _ \<Rightarrow> e)"

definition isWrappedError :: "js_error \<Rightarrow> bool" where
  "isWrappedError e = (case e of WrappedBuildError _ \<Rightarrow> True | _ \<Rightarrow> False)"

text \<open>Lines 2402 to 2408: in development, a 500 without an error gets one.\<close>

definition errOrUndefined :: "server \<Rightarrow> js_error option \<Rightarrow> world \<Rightarrow> js_error option" where
  "errOrUndefined srv err0 w =
     (if dev srv \<and> err0 = None \<and> statusCode (res w) = 500
      then Some (Error ''An undefined error was thrown sometime during render...'')
      else err0)"

text \<open>
  \<^verbatim>\<open>renderErrorToResponse\<close>, lines 2397 to 2496. The inner \<^verbatim>\<open>try\<close> has
  turned a \<^verbatim>\<open>NoFallbackError\<close> into an invariant error, so the \<^verbatim>\<open>catch\<close>
  block never sees one.
\<close>

definition renderErrorToResponse ::
  "helpers \<Rightarrow> server \<Rightarrow> render404_fn \<Rightarrow> ctx \<Rightarrow> js_error option \<Rightarrow> world
     \<Rightarrow> payload option completion \<times> world" where
  "renderErrorToResponse h srv r404 c err0 w =
     (case tryRenderErrorPage h srv r404 c (errOrUndefined srv err0 w) w of
           (Return r, w') \<Rightarrow> (Return r, w')
         | (OutOfFuel, w') \<Rightarrow> (OutOfFuel, w')
         | (Throw ex, w') \<Rightarrow>
             (let renderToHtmlError = (case ex of Raised e \<Rightarrow> e | NoFallbackError \<Rightarrow> Error []);
                  w1 = (if \<not> isWrappedError renderToHtmlError
                        then logged (LogError (Some renderToHtmlError)) w' else w');
                  w2 = w1\<lparr>res := (res w1)\<lparr>statusCode := 500\<rparr>\<rparr>
              in case fallbackErrorComponents srv of
                   Some fallbackComponents \<Rightarrow>
                     renderToResponseWithComponents h srv r404
                       (c\<lparr>pathname := ''/_error'', opts_err := Some (innerError renderToHtmlError)\<rparr>)
                       \<lparr>fr_components = fallbackComponents, fr_query = ctx_query c\<rparr> w2
                 | None \<Rightarrow>
                     (Return (Some \<lparr>ptype = Html, body = ''Internal Server Error'',
                                     revalidateOptions = None\<rparr>), w2)))"


section \<open>The render dispatcher\<close>

text \<open>
  \<^verbatim>\<open>renderToResponseWithComponents\<close> assigns \<^verbatim>\<open>opts.supportsDynamicHTML\<close> on the
  \<^verbatim>\<open>renderOpts\<close> object it was given, once it is past the return for a static
  page. \<^verbatim>\<open>renderToResponse\<close> passes its own \<^verbatim>\<open>ctx\<close> to the first call, so what
  follows that call sees the new value.
\<close>

definition ctxAfter :: "helpers \<Rightarrow> server \<Rightarrow> ctx \<Rightarrow> find_result \<Rightarrow> ctx" where
  "ctxAfter h srv c fr =
     (case Component (fr_components fr) of
        StaticHTML _ \<Rightarrow> c
      | PageComponent _ \<Rightarrow>
          c\<lparr>supportsDynamicHTML := l_supportsDynamicHTML (computeLocals h srv c fr)\<rparr>)"

text \<open>
  Lines 2281 to 2319, the loop over \<^verbatim>\<open>this.dynamicRoutes\<close>. \<open>None\<close>: the loop
  ended without a return or a throw.
\<close>

fun scanDynamicRoutes ::
  "helpers \<Rightarrow> server \<Rightarrow> render404_fn \<Rightarrow> ctx \<Rightarrow> bool \<Rightarrow> routing_item list \<Rightarrow> world
     \<Rightarrow> payload option completion option \<times> world" where
  "scanDynamicRoutes h srv r404 c bubbleNoFallback [] w = (None, w)"
| "scanDynamicRoutes h srv r404 c bubbleNoFallback (dynamicRoute # routes) w =
     (case matcher dynamicRoute (pathname c) of
        Inl e \<Rightarrow> (Some (Throw (Raised e)), w)
      | Inr None \<Rightarrow> scanDynamicRoutes h srv r404 c bubbleNoFallback routes w
      | Inr (Some params) \<Rightarrow>
          (case findPageComponents h (page dynamicRoute) (ctx_query c) (Some params) of
             Inl e \<Rightarrow> (Some (Throw (Raised e)), w)
           | Inr None \<Rightarrow> scanDynamicRoutes h srv r404 c bubbleNoFallback routes w
           | Inr (Some dynamicRouteResult) \<Rightarrow>
               (case renderToResponseWithComponents h srv r404
                       (c\<lparr>pathname := page dynamicRoute, opts_params := Some params\<rparr>)
                       dynamicRouteResult w of
                  (Throw ex, w') \<Rightarrow>
                    if ex \<noteq> NoFallbackError \<or> (ex = NoFallbackError \<and> bubbleNoFallback)
                    then (Some (Throw ex), w')
                    else scanDynamicRoutes h srv r404 c bubbleNoFallback routes w'
                | (other, w') \<Rightarrow> (Some other, w'))))"

text \<open>Lines 2267 to 2319, the \<^verbatim>\<open>try\<close> block of \<^verbatim>\<open>renderToResponse\<close>.\<close>

definition tryRender ::
  "helpers \<Rightarrow> server \<Rightarrow> render404_fn \<Rightarrow> ctx \<Rightarrow> bool \<Rightarrow> world
     \<Rightarrow> payload option completion option \<times> ctx \<times> world" where
  "tryRender h srv r404 c bubbleNoFallback w =
     (case findPageComponents h (pathname c) (ctx_query c) None of
        Inl e \<Rightarrow> (Some (Throw (Raised e)), c, w)
      | Inr result \<Rightarrow>
          (case (case result of
                   None \<Rightarrow> (None, c, w)
                 | Some fr \<Rightarrow>
                     (case renderToResponseWithComponents h srv r404 c fr w of
                        (Throw ex, w') \<Rightarrow>
                          if ex \<noteq> NoFallbackError \<or> (ex = NoFallbackError \<and> bubbleNoFallback)
                          then (Some (Throw ex), ctxAfter h srv c fr, w')
                          else (None, ctxAfter h srv c fr, w')
                      | (other, w') \<Rightarrow> (Some other, ctxAfter h srv c fr, w'))) of
             (Some r, c', w') \<Rightarrow> (Some r, c', w')
           | (None, c', w') \<Rightarrow>
               (case dynamicRoutes srv of
                  None \<Rightarrow> (None, c', w')
                | Some routes \<Rightarrow>
                    (case scanDynamicRoutes h srv r404 c' bubbleNoFallback routes w' of
                       (r, w'') \<Rightarrow> (r, c', w'')))))"

definition setStatus :: "nat \<Rightarrow> world \<Rightarrow> world" where
  "setStatus n w = w\<lparr>res := (res w)\<lparr>statusCode := n\<rparr>\<rparr>"

text \<open>
  Lines 2320 to 2345, the \<^verbatim>\<open>catch\<close> block of \<^verbatim>\<open>renderToResponse\<close>. The
  inner \<^verbatim>\<open>catch\<close> blocks let a \<^verbatim>\<open>NoFallbackError\<close> through only with the
  bubble flag, so its branch without the flag is never taken; it is written out as the
  source has it, the error standing for itself where a \<open>js_error\<close> is needed.
\<close>

definition catchRender ::
  "helpers \<Rightarrow> server \<Rightarrow> render404_fn \<Rightarrow> ctx \<Rightarrow> bool \<Rightarrow> exn \<Rightarrow> world
     \<Rightarrow> payload option completion \<times> world" where
  "catchRender h srv r404 c bubbleNoFallback ex w =
     (case ex of
        NoFallbackError \<Rightarrow>
          if bubbleNoFallback then (Throw NoFallbackError, w)
          else
            (case renderErrorToResponse h srv r404 c (Some (Error ''NoFallbackError''))
                    (setStatus 500 w) of
               (Return response, w') \<Rightarrow>
                 if minimalMode srv \<or> dev srv then (Throw NoFallbackError, w')
                 else (Return response, logged (LogError (Some (Error ''NoFallbackError''))) w')
             | other \<Rightarrow> other)
      | Raised (DecodeError m) \<Rightarrow>
          renderErrorToResponse h srv r404 c (Some (DecodeError m)) (setStatus 400 w)
      | Raised e \<Rightarrow>
          (case renderErrorToResponse h srv r404 c (Some (innerError e)) (setStatus 500 w) of
             (Return response, w') \<Rightarrow>
               if \<not> isWrappedError e then
                 (if minimalMode srv \<or> dev srv then (Throw (Raised e), w')
                  else (Return response, logged (LogError (Some e)) w'))
               else (Return response, w')
           | other \<Rightarrow> other))"

text \<open>\<^verbatim>\<open>renderToResponse\<close>, lines 2259 to 2348.\<close>

definition renderToResponse ::
  "helpers \<Rightarrow> server \<Rightarrow> render404_fn \<Rightarrow> ctx \<Rightarrow> world \<Rightarrow> payload option completion \<times> world" where
  "renderToResponse h srv r404 c0 w =
     (let bubbleNoFallback = truthy (ctx_query c0 ''_nextBubbleNoFallback'');
          c = c0\<lparr>ctx_query := (ctx_query c0)(''_nextBubbleNoFallback'' := None)\<rparr>
      in case tryRender h srv r404 c bubbleNoFallback w of
           (Some (Return r), c', w') \<Rightarrow> (Return r, w')
         | (Some OutOfFuel, c', w') \<Rightarrow> (OutOfFuel, w')
         | (Some (Throw ex), c', w') \<Rightarrow> catchRender h srv r404 c' bubbleNoFallback ex w'
         | (None, c', w') \<Rightarrow> renderErrorToResponse h srv r404 c' None (setStatus 404 w'))"

section \<open>Sending the payload\<close>

text \<open>\<^verbatim>\<open>pipe\<close>, lines 1627 to 1666.\<close>

definition pipe ::
  "helpers \<Rightarrow> server \<Rightarrow> (ctx \<Rightarrow> world \<Rightarrow> payload option completion \<times> world)
     \<Rightarrow> request \<Rightarrow> string \<Rightarrow> query \<Rightarrow> world \<Rightarrow> unit completion \<times> world" where
  "pipe h srv fn rq pname q w =
     (let c = \<lparr>req = rq, pathname = pname, ctx_query = q,
               supportsDynamicHTML =
                 (if truthy (user_agent rq) then \<not> isBot h (the (user_agent rq)) else False),
               opts_err = None, opts_params = None\<rparr>
      in case fn c w of
           (Return None, w') \<Rightarrow> (Return (), w')
         | (Return (Some p), w') \<Rightarrow>
             if \<not> isResSent (res w') then
               (let r1 = (if dev srv
                          then setHeader ''Cache-Control'' ''no-store, must-revalidate'' (res w')
                          else res w')
                in (Return (),
                    logged (SendRenderResult (ptype p) (body p))
                      (w'\<lparr>res := sendRenderResult h p r1\<rparr>)))
             else (Return (), w')
         | (Throw ex, w') \<Rightarrow> (Throw ex, w')
         | (OutOfFuel, w') \<Rightarrow> (OutOfFuel, w'))"

text \<open>
  \<^verbatim>\<open>renderError\<close>, lines 2364 to 2389. In minimal mode a status of 500 rethrows
  \<^verbatim>\<open>err\<close>, which may be null.
\<close>

definition renderError ::
  "helpers \<Rightarrow> server \<Rightarrow> render404_fn \<Rightarrow> js_error option \<Rightarrow> request \<Rightarrow> string \<Rightarrow> query \<Rightarrow> bool
     \<Rightarrow> world \<Rightarrow> unit completion \<times> world" where
  "renderError h srv r404 err rq pname q setHeaders w =
     (let w1 = (if setHeaders
                then w\<lparr>res := setHeader ''Cache-Control''
                                 ''no-cache, no-store, max-age=0, must-revalidate'' (res w)\<rparr>
                else w)
      in pipe h srv
           (\<lambda>c w2. case renderErrorToResponse h srv r404 c err w2 of
                      (Return response, w3) \<Rightarrow>
                        if minimalMode srv \<and> statusCode (res w3) = 500
                        then (Throw (Raised (case err of Some e \<Rightarrow> e | None \<Rightarrow> Error ''null'')), w3)
                        else (Return response, w3)
                    | other \<Rightarrow> other)
           rq pname q w1)"

text \<open>
  \<^verbatim>\<open>render404\<close>, lines 2518 to 2537. It renders the error page through
  \<^verbatim>\<open>renderToResponseWithComponents\<close>, which calls \<^verbatim>\<open>render404\<close> again when the
  error page itself says "not found": nothing bounds that chain in the source, so the
  model counts it with fuel.
\<close>

definition render404_step ::
  "helpers \<Rightarrow> server \<Rightarrow> render404_fn \<Rightarrow> render404_fn" where
  "render404_step h srv r404 rq pname q setHeaders w =
     (let q' = (case i18n srv of
                  None \<Rightarrow> q
                | Some cfg \<Rightarrow>
                    q(''__nextLocale'' \<mapsto> orElse (q ''__nextLocale'') (defaultLocale cfg),
                      ''__nextDefaultLocale'' \<mapsto>
                         orElse (q ''__nextDefaultLocale'') (defaultLocale cfg)))
      in renderError h srv r404 None rq pname q' setHeaders (setStatus 404 w))"

primrec render404 :: "helpers \<Rightarrow> server \<Rightarrow> nat \<Rightarrow> render404_fn" where
  "render404 h srv 0 = (\<lambda>rq pname q setHeaders w. (OutOfFuel, w))"
| "render404 h srv (Suc n) = render404_step h srv (render404 h srv n)"

record parsed_url =
  pu_pathname :: "string option"
  pu_query :: query

text \<open>\<^verbatim>\<open>render404\<close> as its callers use it, with an optional \<^verbatim>\<open>parsedUrl\<close>.\<close>

definition render404_url ::
  "helpers \<Rightarrow> server \<Rightarrow> nat \<Rightarrow> request \<Rightarrow> parsed_url option \<Rightarrow> bool \<Rightarrow> world
     \<Rightarrow> unit completion \<times> world" where
  "render404_url h srv n rq parsedUrl setHeaders w =
     (let pu = (case parsedUrl of
                  Some u \<Rightarrow> u
                | None \<Rightarrow> \<lparr>pu_pathname = url_pathname rq, pu_query = url_query rq\<rparr>)
      in render404 h srv n rq (case pu_pathname pu of Some p \<Rightarrow> p | None \<Rightarrow> [])
           (pu_query pu) setHeaders w)"

definition hasPage :: "helpers \<Rightarrow> string \<Rightarrow> bool" where
  "hasPage h pname = (case getPagePath h pname of Inr found \<Rightarrow> found \<noteq> [] | Inl _ \<Rightarrow> False)"

text \<open>
  \<^verbatim>\<open>render\<close>, lines 1690 to 1741. \<^verbatim>\<open>handleRequest\<close> runs the router, which is
  not part of this file: it is a parameter.
\<close>

definition render ::
  "helpers \<Rightarrow> server \<Rightarrow> nat
     \<Rightarrow> (request \<Rightarrow> parsed_url option \<Rightarrow> world \<Rightarrow> unit completion \<times> world)
     \<Rightarrow> request \<Rightarrow> string \<Rightarrow> query \<Rightarrow> parsed_url option \<Rightarrow> world \<Rightarrow> unit completion \<times> world" where
  "render h srv n handleRequest rq pname0 q parsedUrl w =
     (let pname = (if customServer srv \<and> pname0 = ''/index'' \<and> \<not> hasPage h ''/index''
                   then ''/'' else pname0)
      in if \<not> minimalMode srv \<and> \<not> truthy (q ''_nextDataReq'') \<and>
            (startsWith (url rq) ''/_next/'' \<or>
             (hasStaticDir srv \<and> startsWith (url rq) ''/static/''))
         then handleRequest rq parsedUrl w
         else if isBlockedPage h pname then render404_url h srv n rq parsedUrl True w
         else pipe h srv (renderToResponse h srv (render404 h srv n)) rq pname q w)"



section \<open>The data route\<close>

definition lowerChar :: "char \<Rightarrow> char" where
  "lowerChar c =
     (if 65 \<le> (of_char c :: nat) \<and> (of_char c :: nat) \<le> 90
      then char_of ((of_char c :: nat) + 32) else c)"


definition routeFinished :: route_result where
  "routeFinished = \<lparr>finished = True, rr_pathname = None, rr_query = None\<rparr>"




section \<open>Middleware\<close>

text \<open>
  Modelled from the spec: \<^verbatim>\<open>NextResponse.next()\<close> (\<^verbatim>\<open>./web/spec-extension/response\<close>)
  is not part of this file; the spec's "continue" marker header is the
  \<^verbatim>\<open>x-middleware-next\<close> that this file tests for.
\<close>

definition NextResponse_next :: edge_response where
  "NextResponse_next = \<lparr>er_headers = [(''x-middleware-next'', ''1'')], er_status = 200, er_body = []\<rparr>"












section \<open>Requests that share a cache key\<close>

text \<open>
  Modelled from the spec: \<^verbatim>\<open>ResponseCache\<close> (\<^verbatim>\<open>./response-cache\<close>) is not part
  of this file. Section 4.3 and section 5, with several requests in flight: the tasks of
  the requests run cooperatively, so the cache sees a sequence of events. \<open>Get c key\<close>:
  the caller \<open>c\<close> calls \<^verbatim>\<open>get(key, producer)\<close>. \<open>Settle s r\<close>: the production in the
  slot \<open>s\<close> completes with \<open>r\<close> (null: nothing to cache). A null key invokes the producer
  directly, for that caller alone. A key with a production in flight makes the caller
  await that production. A key with a stored entry that is not stale is answered from
  the store. Otherwise the producer is invoked; a stale entry is served to the caller
  that triggered the regeneration.
\<close>

datatype slot = Keyed string | Direct nat


record 'r rc_state =
  inflight :: "slot \<rightharpoonup> nat list"
  started :: "slot list"
  settled :: "slot list"
  delivered :: "(nat \<times> 'r option) list"
  stored :: "string \<rightharpoonup> 'r \<times> bool"








section \<open>A sample deployment\<close>

text \<open>
  Concrete pages, collaborators and a request, on which the theorems below are
  instantiated. The pages: \<^verbatim>\<open>/post/[id]\<close> and \<^verbatim>\<open>/blog/[slug]\<close> are statically
  generated with \<^verbatim>\<open>getStaticPaths\<close> (fallback false and a fallback file), and so is
  the plain page \<^verbatim>\<open>/post/create\<close>; \<^verbatim>\<open>/about\<close> has \<^verbatim>\<open>getServerSideProps\<close>;
  \<^verbatim>\<open>/_error\<close> has \<^verbatim>\<open>getInitialProps\<close>.
\<close>

definition ssgPage :: components where
  "ssgPage = \<lparr>Component = PageComponent False, c_getStaticProps = True,
     c_getServerSideProps = False, c_getStaticPaths = True, hasRenderReqToHTML = False,
     documentGetInitialProps = False\<rparr>"

definition ssrPage :: components where
  "ssrPage = \<lparr>Component = PageComponent False, c_getStaticProps = False,
     c_getServerSideProps = True, c_getStaticPaths = False, hasRenderReqToHTML = False,
     documentGetInitialProps = False\<rparr>"

definition errorPage :: components where
  "errorPage = \<lparr>Component = PageComponent True, c_getStaticProps = False,
     c_getServerSideProps = False, c_getStaticPaths = False, hasRenderReqToHTML = False,
     documentGetInitialProps = False\<rparr>"

definition samplePages :: "string \<Rightarrow> js_error + components" where
  "samplePages p =
     (if p = ''/post/[id]'' \<or> p = ''/blog/[slug]'' then Inr ssgPage
      else if p = ''/post/create'' then Inr (ssgPage\<lparr>c_getStaticPaths := False\<rparr>)
      else if p = ''/about'' then Inr ssrPage
      else if p = ''/_error'' then Inr errorPage
      else Inl (ErrnoError ''ENOENT''))"

definition sampleOutput :: render_output where
  "sampleOutput = \<lparr>ro_html = Some ''<html>'', ro_pageData = emptyPageData\<lparr>props := ''{}''\<rparr>,
     ro_sprRevalidate = None, ro_isNotFound = False, ro_isRedirect = False\<rparr>"

text \<open>
  A locale detector for the sample: the first segment of the path, compared without
  case against the configured locales, is cut off when it is one of them.
\<close>

definition sampleNormalizeLocalePath :: "string \<Rightarrow> string list option \<Rightarrow> string \<times> string option" where
  "sampleNormalizeLocalePath p ls =
     (case (ls, splitOn (CHR ''/'') p) of
        (Some locs, e # seg # rest) \<Rightarrow>
          (case find (\<lambda>l. map lowerChar l = map lowerChar seg) locs of
             Some l \<Rightarrow> (if rest = [] then ''/'' else joinWith ''/'' (e # rest), Some l)
           | None \<Rightarrow> (p, None))
      | _ \<Rightarrow> (p, None))"

definition sample_helpers :: helpers where
  "sample_helpers =
     \<lparr>removePathTrailingSlash = (\<lambda>p. if p \<noteq> ''/'' \<and> endsWith p ''/'' then butlast p else p),
      normalizeLocalePath = sampleNormalizeLocalePath,
      denormalizePagePath = (\<lambda>p. p),
      normalizePagePath = (\<lambda>p. p),
      escapePathDelimiters = (\<lambda>p. p),
      isDynamicRoute = (\<lambda>p. CHR ''['' \<in> set p),
      isBot = (\<lambda>ua. ua = ''Googlebot''),
      isBlockedPage = (\<lambda>p. False),
      tryGetPreviewData = (\<lambda>rq. False),
      getRedirectStatus = (\<lambda>pd. case N_REDIRECT_STATUS pd of Some n \<Rightarrow> n | None \<Rightarrow> 307),
      normalizeRepeatedSlashes = (\<lambda>p. p),
      JSON_stringify = props,
      setRevalidateHeaders = (\<lambda>ro r. r),
      renderToHTML = (\<lambda>args r. (Inr sampleOutput, r)),
      renderReqToHTML = (\<lambda>args r. (Inr sampleOutput, r)),
      getFallback = (\<lambda>p. Inr ''<fallback>''),
      loadComponents = samplePages,
      getPagePath = (\<lambda>p. case samplePages p of Inr _ \<Rightarrow> Inr p | Inl e \<Rightarrow> Inl e),
      getRouteFromAssetPath = (\<lambda>p ext. stripSuffix ext p),
      getMiddlewareInfo = (\<lambda>p. Inr (p, [])),
      runEdge = (\<lambda>name rq pg. Inr NextResponse_next),
      prepareDestination = (\<lambda>dest q. (dest, \<lparr>pd_protocol = None, pd_hostname = None,
                                                   pd_port = None, pd_query = q\<rparr>)),
      proxyRequest = (\<lambda>rq pd r. (Inr routeFinished, r)),
      detectDomainLocale = (\<lambda>hst. None),
      sendRenderResult = (\<lambda>p r. res_end (body p) r),
      STATIC_STATUS_PAGES = [''/500'']\<rparr>"

definition postRoute :: routing_item where
  "postRoute = \<lparr>page = ''/post/[id]'',
     matcher = (\<lambda>p. Inr (if startsWith p ''/post/'' then Some [''id'' \<mapsto> drop 6 p] else None))\<rparr>"

definition blogRoute :: routing_item where
  "blogRoute = \<lparr>page = ''/blog/[slug]'',
     matcher = (\<lambda>p. Inr (if startsWith p ''/blog/'' then Some [''slug'' \<mapsto> drop 6 p] else None))\<rparr>"

definition sample_server :: server where
  "sample_server =
     \<lparr>buildId = ''BUILD'', minimalMode = False, dev = False, i18n = None, basePath = [],
      trailingSlash = False, customServer = False,
      prerenderManifest = [''/post/[id]'' \<mapsto> FallbackFalse,
                           ''/blog/[slug]'' \<mapsto> FallbackString ''/blog/[slug].html''],
      dynamicRoutes = Some [postRoute, blogRoute],
      fallbackErrorComponents = None, hasStaticDir = False, middleware = Some []\<rparr>"

definition sample_request :: "string \<Rightarrow> request" where
  "sample_request path =
     \<lparr>url = path, url_pathname = Some path, url_query = Map.empty, http_method = ''GET'',
      user_agent = Some ''Mozilla'', host = Some ''example.com'',
      x_middleware_subrequest = None, x_middleware_preflight = None,
      nextRewroteUrl = None, nextDidRewrite = None\<rparr>"

definition sample_ctx :: "string \<Rightarrow> string \<Rightarrow> ctx" where
  "sample_ctx path pname =
     \<lparr>req = sample_request path, pathname = pname, ctx_query = Map.empty,
      supportsDynamicHTML = True, opts_err = None, opts_params = None\<rparr>"

definition fresh_response :: response where
  "fresh_response = \<lparr>statusCode = 200, headers = Map.empty, ended = False, written = []\<rparr>"

definition fresh_world :: world where
  "fresh_world = \<lparr>res = fresh_response, cache = Map.empty, log = []\<rparr>"

definition sampleLocals :: "helpers \<Rightarrow> server \<Rightarrow> string \<Rightarrow> string \<Rightarrow> query \<Rightarrow> components \<Rightarrow> locals" where
  "sampleLocals h srv path pname q comps =
     computeLocals h srv ((sample_ctx path pname)\<lparr>ctx_query := q\<rparr>)
       \<lparr>fr_components = comps, fr_query = q\<rparr>"

definition sampleRedirect :: pageData where
  "sampleRedirect = \<lparr>N_REDIRECT = Some ''/new'', N_REDIRECT_STATUS = Some 308,
     N_REDIRECT_BASE_PATH = None, props = ''{redirect}''\<rparr>"

definition failingRenderer :: helpers where
  "failingRenderer = sample_helpers\<lparr>renderToHTML := (\<lambda>args r. (Inl (Error ''render failed''), r))\<rparr>"


definition previewHelpers :: helpers where
  "previewHelpers = sample_helpers\<lparr>tryGetPreviewData := (\<lambda>rq. True)\<rparr>"










section \<open>Facts about the pieces\<close>

lemma supportsDynamicHTML_not_SSG:
  "l_supportsDynamicHTML (computeLocals h srv c fr) \<Longrightarrow> \<not> isSSG (computeLocals h srv c fr)"
  by (simp add: computeLocals_def disableDynamicHTML_def Let_def split: if_splits)


lemma cache_doRender: "cache (snd (doRender h srv L q w)) = cache w"
  by (simp add: doRender_def Let_def logged_def split: sum.splits option.splits)

lemma snd_mapEntry: "snd (mapEntry f r) = snd r"
  by (auto simp: mapEntry_def split: prod.splits completion.splits option.splits)

lemma cache_renderAndDefault: "cache (snd (renderAndDefault h srv L w)) = cache w"
  by (simp add: renderAndDefault_def snd_mapEntry cache_doRender)


lemma cache_serveFallback: "cache (snd (serveFallback h srv L w)) = cache w"
  by (simp add: serveFallback_def snd_mapEntry cache_doRender Let_def logged_def split: sum.splits)

lemma cache_producer: "cache (snd (producer h srv L key hasResolved w)) = cache w"
  by (simp add: producer_def Let_def cache_serveFallback cache_renderAndDefault
      split: sum.splits prod.splits)





lemmas case_congs = option.case_cong sum.case_cong prod.case_cong completion.case_cong
  component.case_cong cache_value.case_cong exn.case_cong js_error.case_cong if_cong

lemma srv_dr_simps [simp]:
  "i18n_locales (srv\<lparr>dynamicRoutes := drs\<rparr>) = i18n_locales srv"
  "disableDynamicHTML (srv\<lparr>dynamicRoutes := drs\<rparr>) = disableDynamicHTML srv"
  "getStaticPaths (srv\<lparr>dynamicRoutes := drs\<rparr>) = getStaticPaths srv"
  "revalidateOptionsOf (srv\<lparr>dynamicRoutes := drs\<rparr>) = revalidateOptionsOf srv"
  "handleRedirect h (srv\<lparr>dynamicRoutes := drs\<rparr>) = handleRedirect h srv"
  "errOrUndefined (srv\<lparr>dynamicRoutes := drs\<rparr>) = errOrUndefined srv"
  "renderArgs (srv\<lparr>dynamicRoutes := drs\<rparr>) = renderArgs srv"
  by (simp_all add: fun_eq_iff i18n_locales_def disableDynamicHTML_def
      getStaticPaths_def revalidateOptionsOf_def handleRedirect_def errOrUndefined_def renderArgs_def
      Let_def cong: case_congs)

lemma srv_dr_strip [simp]:
  "stripNextDataPath h (srv\<lparr>dynamicRoutes := drs\<rparr>) = stripNextDataPath h srv"
  by (simp add: fun_eq_iff stripNextDataPath_def Let_def cong: case_congs)

lemma srv_dr_simps2 [simp]:
  "computeLocals h (srv\<lparr>dynamicRoutes := drs\<rparr>) = computeLocals h srv"
  "ssgCacheKey (srv\<lparr>dynamicRoutes := drs\<rparr>) = ssgCacheKey srv"
  "doRender h (srv\<lparr>dynamicRoutes := drs\<rparr>) = doRender h srv"
  "fallbackApplies h (srv\<lparr>dynamicRoutes := drs\<rparr>) = fallbackApplies h srv"
  by (simp_all add: fun_eq_iff computeLocals_def ssgCacheKey_def doRender_def fallbackApplies_def
       Let_def cong: case_congs)

lemma srv_dr_simps3 [simp]:
  "renderAndDefault h (srv\<lparr>dynamicRoutes := drs\<rparr>) = renderAndDefault h srv"
  "serveFallback h (srv\<lparr>dynamicRoutes := drs\<rparr>) = serveFallback h srv"
  "respond h (srv\<lparr>dynamicRoutes := drs\<rparr>) = respond h srv"
  "ctxAfter h (srv\<lparr>dynamicRoutes := drs\<rparr>) = ctxAfter h srv"
  by (simp_all add: fun_eq_iff renderAndDefault_def serveFallback_def respond_def ctxAfter_def
       Let_def cong: case_congs)

lemma srv_dr_producer [simp]:
  "producer h (srv\<lparr>dynamicRoutes := drs\<rparr>) = producer h srv"
  by (simp add: fun_eq_iff producer_def Let_def cong: case_congs)

lemma srv_dr_rwc [simp]:
  "renderToResponseWithComponents h (srv\<lparr>dynamicRoutes := drs\<rparr>) = renderToResponseWithComponents h srv"
  by (simp add: fun_eq_iff renderToResponseWithComponents_def Let_def cong: case_congs)

lemma srv_dr_err [simp]:
  "tryRenderErrorPage h (srv\<lparr>dynamicRoutes := drs\<rparr>) = tryRenderErrorPage h srv"
  by (simp add: fun_eq_iff tryRenderErrorPage_def Let_def cong: case_congs)

lemma srv_dr_err2 [simp]:
  "renderErrorToResponse h (srv\<lparr>dynamicRoutes := drs\<rparr>) = renderErrorToResponse h srv"
  by (simp add: fun_eq_iff renderErrorToResponse_def Let_def cong: case_congs)

lemma srv_dr_catch [simp]:
  "catchRender h (srv\<lparr>dynamicRoutes := drs\<rparr>) = catchRender h srv"
  "pipe h (srv\<lparr>dynamicRoutes := drs\<rparr>) = pipe h srv"
  by (simp_all add: fun_eq_iff catchRender_def pipe_def Let_def cong: case_congs)

lemma srv_dr_renderError [simp]:
  "renderError h (srv\<lparr>dynamicRoutes := drs\<rparr>) = renderError h srv"
  by (simp add: fun_eq_iff renderError_def Let_def cong: case_congs)

lemma srv_dr_step [simp]:
  "render404_step h (srv\<lparr>dynamicRoutes := drs\<rparr>) = render404_step h srv"
  by (simp add: fun_eq_iff render404_step_def Let_def cong: case_congs)

lemma srv_dr_render404 [simp]:
  "render404 h (srv\<lparr>dynamicRoutes := drs\<rparr>) n = render404 h srv n"
  by (induction n) simp_all




lemma fst_doRender_NoFallback: "fst (doRender h srv L q w) \<noteq> Throw NoFallbackError"
  by (simp add: doRender_def Let_def split: sum.splits option.splits)

lemma fst_mapEntry_Throw: "(fst (mapEntry f r) = Throw e) = (fst r = Throw e)"
  by (auto simp: mapEntry_def split: prod.splits completion.splits option.splits)


lemma fst_serveFallback_NoFallback: "fst (serveFallback h srv L w) \<noteq> Throw NoFallbackError"
  by (simp add: serveFallback_def fst_mapEntry_Throw fst_doRender_NoFallback Let_def
      split: sum.splits)







lemma fst_tryRenderErrorPage_NoFallback:
  "fst (tryRenderErrorPage h srv r404 c err w) \<noteq> Throw NoFallbackError"
proof (cases "selectErrorPage h (ctx_query c) (statusCode (res w))")
  case (Inl e)
  then show ?thesis by (simp add: tryRenderErrorPage_def)
next
  case (Inr sp)
  obtain statusPage result where sp: "sp = (statusPage, result)" by (cases sp)
  show ?thesis
  proof (cases result)
    case None
    then show ?thesis using Inr sp by (simp add: tryRenderErrorPage_def)
  next
    case (Some fr)
    obtain r w' where g: "renderToResponseWithComponents h srv r404
        (c\<lparr>pathname := statusPage, opts_err := err\<rparr>) fr w = (r, w')"
      by (cases "renderToResponseWithComponents h srv r404
        (c\<lparr>pathname := statusPage, opts_err := err\<rparr>) fr w")
    show ?thesis using Inr sp Some g
      by (cases r) (auto simp: tryRenderErrorPage_def split: exn.splits)
  qed
qed








section \<open>The claims\<close>

text \<open>
  C3, as amended. The claim says that the cache key is null for every request in preview
  mode, in minimal mode, with dynamic HTML in effect, or to a page that is not statically
  generated. Lines 1969 to 1973 give a statically generated \<^verbatim>\<open>/404\<close> or
  \<^verbatim>\<open>/500\<close> page a key in every mode, so the claim holds for every other page: in
  preview mode or minimal mode, on a page that is not such a status page, and on every
  page that is not statically generated or that is rendered with dynamic HTML, the key
  is null, the response cache invokes the producer directly, and the producer leaves
  the cache as it was.
\<close>

theorem C3_cache_key_null:
  assumes "L = computeLocals h srv c fr"
    and "((isPreviewMode L \<or> minimalMode srv) \<and> \<not> ((is404Page L \<or> is500Page L) \<and> isSSG L))
          \<or> \<not> isSSG L \<or> l_supportsDynamicHTML L"
  shows "ssgCacheKey srv L = None
       \<and> decodedCacheKey h (ssgCacheKey srv L) = Inr None
       \<and> responseCache_get None (producer h srv L None) w = producer h srv L None False w
       \<and> cache (snd (producer h srv L None False w)) = cache w"
proof -
  have ns: "l_supportsDynamicHTML L \<Longrightarrow> \<not> isSSG L"
    using assms(1) supportsDynamicHTML_not_SSG by simp
  have k: "ssgCacheKey srv L = None"
    using assms(2) ns by (auto simp: ssgCacheKey_def Let_def)
  show ?thesis
    by (simp add: k decodedCacheKey_def truthy_def responseCache_get_def cache_producer)
qed

text \<open>
  The witness of C3: the page \<^verbatim>\<open>/post/[id]\<close> of the sample deployment, requested in
  preview mode.
\<close>

theorem C3_cache_key_null_witness:
  "ssgCacheKey sample_server
     (computeLocals previewHelpers sample_server
        (sample_ctx ''/post/1'' ''/post/[id]'')
        \<lparr>fr_components = ssgPage, fr_query = Map.empty\<rparr>) = None
   \<and> cache (snd (producer previewHelpers sample_server
        (computeLocals previewHelpers sample_server
           (sample_ctx ''/post/1'' ''/post/[id]'')
           \<lparr>fr_components = ssgPage, fr_query = Map.empty\<rparr>)
        None False fresh_world)) = cache fresh_world"
proof -
  have pm: "isPreviewMode
     (computeLocals previewHelpers sample_server
        (sample_ctx ''/post/1'' ''/post/[id]'')
        \<lparr>fr_components = ssgPage, fr_query = Map.empty\<rparr>)"
    by (simp add: computeLocals_def previewHelpers_def sample_helpers_def ssgPage_def Let_def)
  have np: "\<not> is404Page
     (computeLocals previewHelpers sample_server
        (sample_ctx ''/post/1'' ''/post/[id]'')
        \<lparr>fr_components = ssgPage, fr_query = Map.empty\<rparr>)"
      "\<not> is500Page
     (computeLocals previewHelpers sample_server
        (sample_ctx ''/post/1'' ''/post/[id]'')
        \<lparr>fr_components = ssgPage, fr_query = Map.empty\<rparr>)"
    by (simp_all add: computeLocals_def sample_ctx_def Let_def)
  show ?thesis
    using C3_cache_key_null [OF refl, of previewHelpers
        sample_server "sample_ctx ''/post/1'' ''/post/[id]''"
        "\<lparr>fr_components = ssgPage, fr_query = Map.empty\<rparr>" fresh_world] pm np
    by simp
qed

text \<open>
  The counterexample to C3 as stated: a statically generated \<^verbatim>\<open>/404\<close> page,
  requested in preview mode on a server in minimal mode, has the cache key
  \<^verbatim>\<open>/404\<close>.
\<close>

theorem C3_counterexample:
  "isPreviewMode (computeLocals previewHelpers
       (sample_server\<lparr>minimalMode := True\<rparr>) (sample_ctx ''/404'' ''/404'')
       \<lparr>fr_components = ssgPage, fr_query = Map.empty\<rparr>)
   \<and> minimalMode (sample_server\<lparr>minimalMode := True\<rparr>)
   \<and> ssgCacheKey (sample_server\<lparr>minimalMode := True\<rparr>)
       (computeLocals previewHelpers
       (sample_server\<lparr>minimalMode := True\<rparr>) (sample_ctx ''/404'' ''/404'')
       \<lparr>fr_components = ssgPage, fr_query = Map.empty\<rparr>) = Some ''/404''"
  by (simp add: computeLocals_def previewHelpers_def sample_helpers_def sample_server_def
      sample_ctx_def ssgPage_def ssgCacheKey_def Let_def localePrefix_def ampSuffix_def truthy_def disableDynamicHTML_def
      sample_request_def orElse_def i18n_locales_def endsWith_def)




text \<open>
  C9. When the attempt to render the error page throws (finding its components or
  rendering them, lines 2409 to 2457) and there are no fallback error components,
  \<^verbatim>\<open>renderErrorToResponse\<close> returns the HTML payload
  \<^verbatim>\<open>Internal Server Error\<close> with the status 500; after the failed attempt it only
  logs the error (unless it wraps a build error) and renders nothing more.
\<close>

theorem C9_internal_server_error:
  assumes "tryRenderErrorPage h srv r404 c (errOrUndefined srv err w) w = (Throw ex, w')"
    and "fallbackErrorComponents srv = None"
  shows "fst (renderErrorToResponse h srv r404 c err w)
           = Return (Some \<lparr>ptype = Html, body = ''Internal Server Error'', revalidateOptions = None\<rparr>)
       \<and> statusCode (res (snd (renderErrorToResponse h srv r404 c err w))) = 500
       \<and> log (snd (renderErrorToResponse h srv r404 c err w))
           = (case ex of
                Raised (WrappedBuildError inner) \<Rightarrow> log w'
              | Raised e \<Rightarrow> log w' @ [LogError (Some e)]
              | NoFallbackError \<Rightarrow> log w' @ [LogError (Some (Error []))])"
  using assms
  by (cases ex; simp add: renderErrorToResponse_def Let_def isWrappedError_def logged_def
       split: js_error.splits)

text \<open>
  The witness of C9: the status is 500 and the renderer fails on \<^verbatim>\<open>/_error\<close> too.
\<close>

theorem C9_internal_server_error_witness:
  "fst (renderErrorToResponse failingRenderer sample_server (render404 failingRenderer sample_server 0)
          (sample_ctx ''/about'' ''/about'') (Some (Error ''render failed''))
          (setStatus 500 fresh_world))
     = Return (Some \<lparr>ptype = Html, body = ''Internal Server Error'', revalidateOptions = None\<rparr>)
   \<and> log (snd (renderErrorToResponse failingRenderer sample_server
          (render404 failingRenderer sample_server 0)
          (sample_ctx ''/about'' ''/about'') (Some (Error ''render failed''))
          (setStatus 500 fresh_world)))
     = [RenderToHTML ''/_error'', LogError (Some (Error ''render failed''))]"
proof -
  have t: "tryRenderErrorPage failingRenderer sample_server (render404 failingRenderer sample_server 0)
          (sample_ctx ''/about'' ''/about'')
          (errOrUndefined sample_server (Some (Error ''render failed'')) (setStatus 500 fresh_world))
          (setStatus 500 fresh_world)
        = (Throw (Raised (Error ''render failed'')),
           \<lparr>res = fresh_response\<lparr>statusCode := 500\<rparr>, cache = Map.empty,
            log = [RenderToHTML ''/_error'']\<rparr>)"
    by (simp add: tryRenderErrorPage_def selectErrorPage_def findPageComponents_def
        failingRenderer_def sample_helpers_def sample_server_def sample_ctx_def samplePages_def
        errorPage_def setStatus_def fresh_world_def fresh_response_def errOrUndefined_def
        renderToResponseWithComponents_def computeLocals_def statusForPage_def
        ssgCacheKey_def decodedCacheKey_def responseCache_get_def producer_def
        fallbackApplies_def botFallbackMode_def renderAndDefault_def mapEntry_def doRender_def
        renderArgs_def disableDynamicHTML_def stripNextDataPath_def i18n_locales_def
        truthy_def orElse_def logged_def sample_request_def endsWith_def Let_def)
  have f: "fallbackErrorComponents sample_server = None"
    by (simp add: sample_server_def)
  show ?thesis
    using C9_internal_server_error [OF t f] by simp
qed

text \<open>
  C6. A cache entry whose value is a redirect (with a destination). A data request gets
  a JSON payload, the serialised redirect props, and the response is not touched: no
  status, no header. Any other request gets no payload: the response is ended with the
  status \<^verbatim>\<open>getRedirectStatus\<close> gives for the redirect, the \<^verbatim>\<open>Location\<close> header
  set to the destination (base path added, repeated slashes normalised), and the
  \<^verbatim>\<open>Refresh\<close> header set to it exactly when that status is 308.
\<close>

theorem C6_redirect:
  assumes "ce_value ce = Some (REDIRECT p)"
      and "N_REDIRECT p = Some destination"
      and "dest = (let d1 = (if basePath srv \<noteq> [] \<and> N_REDIRECT_BASE_PATH p \<noteq> Some False \<and>
                                startsWith destination ''/''
                             then basePath srv @ destination else destination)
                   in if startsWith d1 ''/'' then normalizeRepeatedSlashes h d1 else d1)"
  shows "(isDataReq L \<longrightarrow>
            respond h srv r404 L key (Some ce) w
              = (Return (Some \<lparr>ptype = Json, body = JSON_stringify h p,
                                revalidateOptions = revalidateOptionsOf srv L ce\<rparr>), w))
       \<and> (\<not> isDataReq L \<longrightarrow>
            fst (respond h srv r404 L key (Some ce) w) = Return None
          \<and> statusCode (res (snd (respond h srv r404 L key (Some ce) w))) = getRedirectStatus h p
          \<and> headers (res (snd (respond h srv r404 L key (Some ce) w))) ''Location'' = Some dest
          \<and> ended (res (snd (respond h srv r404 L key (Some ce) w)))
          \<and> headers (res (snd (respond h srv r404 L key (Some ce) w))) ''Refresh''
               = (if getRedirectStatus h p = PERMANENT_REDIRECT_STATUS then Some (''0;url='' @ dest)
                  else headers (res w) ''Refresh''))"
  using assms
  by (simp add: respond_def handleRedirect_def Let_def setHeader_def res_end_def)

text \<open>
  The witness of C6: a permanent redirect to \<^verbatim>\<open>/new\<close>, asked for by a navigation
  and by a data request.
\<close>

theorem C6_redirect_witness:
  "statusCode (res (snd (respond sample_helpers sample_server (render404 sample_helpers sample_server 0)
       (sampleLocals sample_helpers sample_server ''/old'' ''/old'' Map.empty ssgPage) (Some ''/old'')
       (Some \<lparr>ce_revalidate = Some Never, ce_value = Some (REDIRECT sampleRedirect)\<rparr>) fresh_world))) = 308
   \<and> headers (res (snd (respond sample_helpers sample_server (render404 sample_helpers sample_server 0)
       (sampleLocals sample_helpers sample_server ''/old'' ''/old'' Map.empty ssgPage) (Some ''/old'')
       (Some \<lparr>ce_revalidate = Some Never, ce_value = Some (REDIRECT sampleRedirect)\<rparr>) fresh_world)))
       ''Location'' = Some ''/new''
   \<and> headers (res (snd (respond sample_helpers sample_server (render404 sample_helpers sample_server 0)
       (sampleLocals sample_helpers sample_server ''/old'' ''/old'' Map.empty ssgPage) (Some ''/old'')
       (Some \<lparr>ce_revalidate = Some Never, ce_value = Some (REDIRECT sampleRedirect)\<rparr>) fresh_world)))
       ''Refresh'' = Some ''0;url=/new''
   \<and> fst (respond sample_helpers sample_server (render404 sample_helpers sample_server 0)
       (sampleLocals sample_helpers sample_server ''/_next/data/BUILD/old.json'' ''/old''
          [''_nextDataReq'' \<mapsto> ''1''] ssgPage) (Some ''/old'')
       (Some \<lparr>ce_revalidate = Some Never, ce_value = Some (REDIRECT sampleRedirect)\<rparr>) fresh_world)
     = Return (Some \<lparr>ptype = Json, body = ''{redirect}'',
         revalidateOptions = Some \<lparr>ro_private = False, ro_stateful = False, ro_revalidate = Never\<rparr>\<rparr>)
   \<and> res (snd (respond sample_helpers sample_server (render404 sample_helpers sample_server 0)
       (sampleLocals sample_helpers sample_server ''/_next/data/BUILD/old.json'' ''/old''
          [''_nextDataReq'' \<mapsto> ''1''] ssgPage) (Some ''/old'')
       (Some \<lparr>ce_revalidate = Some Never, ce_value = Some (REDIRECT sampleRedirect)\<rparr>) fresh_world))
     = fresh_response"
proof -
  let ?ce = "\<lparr>ce_revalidate = Some Never, ce_value = Some (REDIRECT sampleRedirect)\<rparr>"
  let ?nav = "sampleLocals sample_helpers sample_server ''/old'' ''/old'' Map.empty ssgPage"
  let ?data = "sampleLocals sample_helpers sample_server ''/_next/data/BUILD/old.json'' ''/old''
          [''_nextDataReq'' \<mapsto> ''1''] ssgPage"
  have v: "ce_value ?ce = Some (REDIRECT sampleRedirect)" by simp
  have d: "N_REDIRECT sampleRedirect = Some ''/new''" by (simp add: sampleRedirect_def)
  have n: "\<not> isDataReq ?nav"
    by (simp add: sampleLocals_def computeLocals_def Let_def truthy_def)
  have j: "isDataReq ?data"
    by (simp add: sampleLocals_def computeLocals_def Let_def truthy_def ssgPage_def)
  have s: "getRedirectStatus sample_helpers sampleRedirect = 308"
    by (simp add: sample_helpers_def sampleRedirect_def)
  have o: "revalidateOptionsOf sample_server ?data ?ce
             = Some \<lparr>ro_private = False, ro_stateful = False, ro_revalidate = Never\<rparr>"
    by (simp add: revalidateOptionsOf_def sample_server_def sampleLocals_def computeLocals_def
        Let_def sample_helpers_def ssgPage_def sample_ctx_def)
  show ?thesis
    using C6_redirect [OF v d refl, where srv = sample_server and h = sample_helpers
            and L = ?nav and ?r404.0 = "render404 sample_helpers sample_server 0"
            and key = "Some ''/old''" and w = fresh_world]
          C6_redirect [OF v d refl, where srv = sample_server and h = sample_helpers
            and L = ?data and ?r404.0 = "render404 sample_helpers sample_server 0"
            and key = "Some ''/old''" and w = fresh_world]
          n j s o
    by (simp add: PERMANENT_REDIRECT_STATUS_def sample_server_def sample_helpers_def
        startsWith_def sampleRedirect_def fresh_world_def Let_def)
qed















section \<open>The claim about concurrent requests\<close>









end
